theory Spec2Isabelle
  imports Complex_Main "HOL-Library.Char_ord" "HOL-Library.List_Lexorder"
begin

section \<open>UTM/GRS80 projection: the conversion module\<close>

text \<open>
  A shallow embedding of \<^verbatim>\<open>src/utm/conversion.pyx\<close>.

  \<^item> A C \<^verbatim>\<open>double\<close> is modelled by a \<^typ>\<open>real\<close>; comparisons are those of the
    source. In the zone rules, where an integer is taken from the result, every sum and
    quotient is rounded to double precision (\<open>round_double\<close> below). The two series of
    the projection are computed exactly: nothing below depends on their digits. NaN and
    the infinities are outside the model.
  \<^item> A Python \<^verbatim>\<open>int\<close> is an \<^typ>\<open>int\<close>. A parameter declared \<^verbatim>\<open>int zone_number\<close> is a
    C int of 32 bits: passing a Python integer to it is a conversion that can fail, and
    arithmetic on it wraps around.
  \<^item> A Python \<^verbatim>\<open>str\<close> is the \<^typ>\<open>string\<close> of the bytes of its UTF-8 encoding: the
    lexicographic order of the bytes is the order of the code points that Python
    compares by, and the ASCII strings are those whose bytes are all below 128.
    \<^verbatim>\<open>None\<close> is \<^const>\<open>None\<close>.
  \<^item> Every \<^verbatim>\<open>raise\<close> is a value \<open>Inl e\<close> of the result type.
\<close>

subsection \<open>Errors\<close>

datatype error =
    ValueError string
  | OutOfRangeError string
  | IndexError
  | OverflowError

subsection \<open>Module constants (lines 7 to 60)\<close>

definition rad2deg :: real where
  "rad2deg = 180 / pi"

definition deg2rad :: real where
  "deg2rad = pi / 180"

definition K0 :: real where
  "K0 = 0.9996"

definition R :: real where
  "R = 6378137.0"

definition F :: real where
  "F = 1.0 / 298.257222101"

definition E :: real where
  "E = (2.0 - F) * F"

definition E2 :: real where
  "E2 = E ^ 2"

definition E3 :: real where
  "E3 = E ^ 3"

definition E4 :: real where
  "E4 = E ^ 4"

definition E5 :: real where
  "E5 = E ^ 5"

definition E_P2 :: real where
  "E_P2 = E / (1.0 - E)"

text \<open>
  The source's \<^verbatim>\<open>_E\<close>, \<^verbatim>\<open>_E2\<close>, ... (third flattening and its powers) are written
  \<open>us_E\<close>, \<open>us_E2\<close>, ...: an Isabelle name cannot start with an underscore.
\<close>

definition us_E :: real where
  "us_E = F / (2.0 - F)"

definition us_E2 :: real where
  "us_E2 = us_E ^ 2"

definition us_E3 :: real where
  "us_E3 = us_E ^ 3"

definition us_E4 :: real where
  "us_E4 = us_E ^ 4"

definition us_E5 :: real where
  "us_E5 = us_E ^ 5"

definition M1 :: real where
  "M1 = (1 - E / 4 - 3 * E2 / 64 - 5 * E3 / 256 - 175 * E4 / 16384 - 441 * E5 / 65536)"

definition M2 :: real where
  "M2 = 3 / 8 * (E + E2 / 4 + 15 * E3 / 128 + 35 * E4 / 512 + 735 * E5 / 16384)"

definition M3 :: real where
  "M3 = 15 / 256 * (E2 + 3 * E3 / 4 + 35 * E4 / 64 + 105 * E5 / 256)"

definition M4 :: real where
  "M4 = 35 / 3072 * (E3 + 5 * E4 / 4 + 315 * E5 / 256)"

definition M5 :: real where
  "M5 = 315 / 131072 * (E4 + 7 * E5 / 4)"

definition M6 :: real where
  "M6 = 693 / 1310720 * E5"

definition P2 :: real where
  "P2 = (3 / 2 * us_E - 27 / 32 * us_E3 + 269 / 512 * us_E5)"

definition P3 :: real where
  "P3 = (21 / 16 * us_E2 - 55 / 32 * us_E4)"

definition P4 :: real where
  "P4 = (151 / 96 * us_E3 - 417 / 128 * us_E5)"

definition P5 :: real where
  "P5 = (1097 / 512 * us_E4)"

definition P6 :: real where
  "P6 = (8011 / 2560 * us_E5)"

definition ZONE_LETTERS :: string where
  "ZONE_LETTERS = ''CDEFGHJKLMNPQRSTUVWXX''"

subsection \<open>Python primitives used by the module\<close>

text \<open>
  Rounding of a real number to the nearest double (IEEE 754 binary64, ties to even):
  the number is rounded to a multiple of \<open>2 ^ (e - 52)\<close>, where \<open>e\<close> is its binary
  exponent, not below the exponent \<open>- 1022\<close> of the subnormal numbers. Numbers of
  magnitude \<open>2 ^ 1024\<close> and more, which no sum or quotient of this module reaches from
  double arguments, are outside the model.
\<close>

definition pow2 :: "int \<Rightarrow> real" where
  "pow2 k = (if 0 \<le> k then 2 ^ nat k else 1 / 2 ^ nat (- k))"

definition round_half_even :: "real \<Rightarrow> int" where
  "round_half_even q =
     (let f = \<lfloor>q\<rfloor>; d = q - of_int f
      in if d < 1 / 2 then f
         else if 1 / 2 < d then f + 1
         else if even f then f else f + 1)"

definition binade :: "real \<Rightarrow> int" where
  "binade x = max \<lfloor>log 2 \<bar>x\<bar>\<rfloor> (- 1022)"

definition round_double :: "real \<Rightarrow> real" where
  "round_double x =
     (if x = 0 then 0
      else let u = pow2 (binade x - 52)
           in of_int (round_half_even (x / u)) * u)"

text \<open>\<^verbatim>\<open>int(x)\<close> of a float truncates towards zero.\<close>

definition py_int :: "real \<Rightarrow> int" where
  "py_int x = (if 0 \<le> x then \<lfloor>x\<rfloor> else \<lceil>x\<rceil>)"

text \<open>
  \<^verbatim>\<open>s[i]\<close> of a \<^verbatim>\<open>str\<close>: a one-character string; a negative index counts from the
  end; out of range raises \<^verbatim>\<open>IndexError\<close>.
\<close>

definition py_index :: "string \<Rightarrow> int \<Rightarrow> error + string" where
  "py_index s i =
     (let n = int (length s); j = (if i < 0 then n + i else i)
      in if 0 \<le> j \<and> j < n then Inr [s ! nat j] else Inl IndexError)"

text \<open>
  \<^verbatim>\<open>str.upper()\<close>. On an ASCII string \<^verbatim>\<open>a\<close> to \<^verbatim>\<open>z\<close> become \<^verbatim>\<open>A\<close> to \<^verbatim>\<open>Z\<close> and every
  other character is kept. On a string with a character beyond ASCII the result follows
  the Unicode case mappings of the Python interpreter (\<^verbatim>\<open>'\xdf'.upper()\<close> is \<^verbatim>\<open>'SS'\<close>),
  which are not part of this module: they are the parameter \<open>unicode_upper\<close>, and every
  statement below holds for every such function.
\<close>

definition upper_char :: "char \<Rightarrow> char" where
  "upper_char c =
     (case map_of (zip ''abcdefghijklmnopqrstuvwxyz'' ''ABCDEFGHIJKLMNOPQRSTUVWXYZ'') c of
        Some u \<Rightarrow> u
      | None \<Rightarrow> c)"

definition upper :: "(string \<Rightarrow> string) \<Rightarrow> string \<Rightarrow> string" where
  "upper unicode_upper s =
     (if list_all (\<lambda>c. \<not> digit7 c) s then map upper_char s else unicode_upper s)"

text \<open>
  The truth value of the \<^verbatim>\<open>zone_letter\<close> argument in \<^verbatim>\<open>if zone_letter\<close>:
  \<^verbatim>\<open>None\<close> and the empty string are false, every other string is true.
\<close>

fun truthy :: "string option \<Rightarrow> bool" where
  "truthy None = False"
| "truthy (Some s) = (s \<noteq> [])"

text \<open>
  Passing a Python integer for a parameter declared as a C \<^verbatim>\<open>int\<close> (32 bits): the
  call raises \<^verbatim>\<open>OverflowError\<close> when the value does not fit.
\<close>

definition c_int :: "int \<Rightarrow> error + int" where
  "c_int z = (if - (2 ^ 31) \<le> z \<and> z < 2 ^ 31 then Inr z else Inl OverflowError)"

text \<open>
  The result of an arithmetic operation on C \<^verbatim>\<open>int\<close> values: the exact result reduced
  to the 32-bit two's complement range.
\<close>

definition wrap_c_int :: "int \<Rightarrow> int" where
  "wrap_c_int v = (v + 2 ^ 31) mod 2 ^ 32 - 2 ^ 31"

subsection \<open>Zone rules (lines 257 to 280)\<close>

definition latitude_to_zone_letter :: "real \<Rightarrow> error + string option" where
  "latitude_to_zone_letter latitude =
     (if -80 \<le> latitude \<and> latitude \<le> 84
      then (case py_index ZONE_LETTERS
                   (drop_bit 3 (py_int (round_double (latitude + 80)))) of
              Inl e \<Rightarrow> Inl e
            | Inr l \<Rightarrow> Inr (Some l))
      else Inr None)"

definition latlon_to_zone_number :: "real \<Rightarrow> real \<Rightarrow> int" where
  "latlon_to_zone_number latitude longitude =
     (if 56 \<le> latitude \<and> latitude < 64 \<and> 3 \<le> longitude \<and> longitude < 12 then 32
      else if 72 \<le> latitude \<and> latitude \<le> 84 \<and> longitude \<ge> 0 \<and> longitude \<le> 9 then 31
      else if 72 \<le> latitude \<and> latitude \<le> 84 \<and> longitude \<ge> 0 \<and> longitude \<le> 21 then 33
      else if 72 \<le> latitude \<and> latitude \<le> 84 \<and> longitude \<ge> 0 \<and> longitude \<le> 33 then 35
      else if 72 \<le> latitude \<and> latitude \<le> 84 \<and> longitude \<ge> 0 \<and> longitude \<le> 42 then 37
      else py_int (round_double (round_double (longitude + 180) / 6)) + 1)"

text \<open>
  The parameter is a C \<^verbatim>\<open>int\<close>: the argument is converted at the call, and each of the
  four operations of \<^verbatim>\<open>(zone_number - 1) * 6 - 180 + 3\<close> is done on 32-bit values.
\<close>

definition zone_number_to_central_longitude :: "int \<Rightarrow> error + int" where
  "zone_number_to_central_longitude zone_number =
     (case c_int zone_number of
        Inl e \<Rightarrow> Inl e
      | Inr z \<Rightarrow>
          Inr (wrap_c_int (wrap_c_int (wrap_c_int (wrap_c_int (z - 1) * 6) - 180) + 3)))"

subsection \<open>Inverse conversion: \<^verbatim>\<open>to_latlon\<close> (lines 62 to 166)\<close>

text \<open>
  Lines 112 to 163: the series of the inverse projection, from the easting, the northing
  and the hemisphere to latitude and longitude in radians (the latter relative to the
  central meridian).
\<close>

definition to_latlon_series :: "real \<Rightarrow> real \<Rightarrow> bool \<Rightarrow> real \<times> real" where
  "to_latlon_series easting northing northern =
     (let x = easting - 500000;
          y = (if \<not> northern then northing - 10000000 else northing);
          m = y / K0;
          mu = m / (R * M1);
          p_rad = (mu +
                   P2 * sin (2 * mu) +
                   P3 * sin (4 * mu) +
                   P4 * sin (6 * mu) +
                   P5 * sin (8 * mu) +
                   P6 * sin (10 * mu));
          p_sin2 = sin p_rad ^ 2;
          p_cos = cos p_rad;
          p_tan = tan p_rad;
          p_tan2 = p_tan ^ 2;
          p_tan4 = p_tan ^ 4;
          p_tan6 = p_tan ^ 6;
          n = R / sqrt (1 - E * p_sin2);
          r = (1 - E) / (1 - E * p_sin2);
          c = us_E * p_cos ^ 2;
          c2 = c ^ 2;
          c3 = c ^ 3;
          c4 = c ^ 4;
          d = x / (n * K0);
          latitude = (p_rad - (p_tan / r) *
                (d ^ 2 / 2 -
                 d ^ 4 / 24 * (5 + 3 * p_tan2 + c - 4 * c2 - 9 * p_tan2 * c) +
                 d ^ 6 / 720 * (61 + 90 * p_tan2 + 45 * p_tan4 + 46 * c - 3 * c2 + 100 * c3
                                + 88 * c4 - 252 * p_tan2 * c - 66 * p_tan2 * c2
                                + 84 * p_tan4 * c3 - 192 * p_tan2 * c4 - 90 * p_tan4 * c
                                + 225 * p_tan4 * c2) -
                 d ^ 8 / 40320 * (1385 + 3633 * p_tan2 + 4095 * p_tan4 + 1575 * p_tan6)));
          longitude = (d -
                 d ^ 3 / 6 * (1 + 2 * p_tan2 + c) +
                 d ^ 5 / 120 * (5 + 28 * p_tan2 + 24 * p_tan4 + 6 * c - 3 * c2 - 4 * c3
                                + 8 * p_tan2 * c + 4 * p_tan2 * c2 + 24 * p_tan2 * c3) -
                 d ^ 7 / 5040 * (61 + 662 * p_tan2 + 1320 * p_tan4 + 720 * p_tan6)) / p_cos
      in (latitude, longitude))"

text \<open>
  Lines 104 to 110: the hemisphere. A zone letter is put in upper case, checked, and
  decides; otherwise the \<^verbatim>\<open>northern\<close> argument is taken (it is not \<^verbatim>\<open>None\<close> here:
  line 90 has raised otherwise).
\<close>

definition hemisphere ::
  "(string \<Rightarrow> string) \<Rightarrow> string option \<Rightarrow> bool option \<Rightarrow> error + bool" where
  "hemisphere unicode_upper zone_letter northern =
     (if truthy zone_letter
      then (let zl = upper unicode_upper (case zone_letter of Some s \<Rightarrow> s | None \<Rightarrow> [])
            in if \<not> (''C'' \<le> zl \<and> zl \<le> ''X'') \<or> zl \<in> set [''I'', ''O'']
               then Inl (OutOfRangeError ''zone letter out of range (must be between C and X)'')
               else Inr (zl \<ge> ''N''))
      else (case northern of Some b \<Rightarrow> Inr b | None \<Rightarrow> Inr False))"

text \<open>
  The parameter \<^verbatim>\<open>int zone_number\<close> is a C int: a call with a Python integer that does
  not fit raises \<^verbatim>\<open>OverflowError\<close> before the first statement runs.
\<close>

definition to_latlon ::
  "(string \<Rightarrow> string) \<Rightarrow> real \<Rightarrow> real \<Rightarrow> int \<Rightarrow> string option \<Rightarrow> bool option \<Rightarrow> bool
     \<Rightarrow> error + (real \<times> real)" where
  "to_latlon unicode_upper easting northing zone_number zone_letter northern strict =
     (case c_int zone_number of
        Inl e \<Rightarrow> Inl e
      | Inr zone_number \<Rightarrow>
     (if \<not> truthy zone_letter \<and> northern = None
      then Inl (ValueError ''either zone_letter or northern needs to be set'')
      else if truthy zone_letter \<and> northern \<noteq> None
      then Inl (ValueError ''set either zone_letter or northern, but not both'')
      else if strict \<and> \<not> (100000 \<le> easting \<and> easting < 1000000)
      then Inl (OutOfRangeError
                  ''easting out of range (must be between 100.000 m and 999.999 m)'')
      else if strict \<and> \<not> (0 \<le> northing \<and> northing \<le> 10000000)
      then Inl (OutOfRangeError
                  ''northing out of range (must be between 0 m and 10.000.000 m)'')
      else if \<not> (1 \<le> zone_number \<and> zone_number \<le> 60)
      then Inl (OutOfRangeError ''zone number out of range (must be between 1 and 60)'')
      else (case hemisphere unicode_upper zone_letter northern of
              Inl e \<Rightarrow> Inl e
            | Inr northern' \<Rightarrow>
                (case to_latlon_series easting northing northern' of
                   (latitude, longitude) \<Rightarrow>
                     (case zone_number_to_central_longitude zone_number of
                        Inl e \<Rightarrow> Inl e
                      | Inr central \<Rightarrow>
                          Inr (rad2deg * latitude,
                               rad2deg * longitude + real_of_int central))))))"

subsection \<open>Forward conversion: \<^verbatim>\<open>from_latlon\<close> (lines 169 to 255)\<close>

text \<open>
  Lines 203 to 253: the series of the forward projection, from latitude, longitude and
  the central meridian of the zone (all in degrees) to easting and northing.
\<close>

definition from_latlon_series :: "real \<Rightarrow> real \<Rightarrow> real \<Rightarrow> real \<times> real" where
  "from_latlon_series latitude longitude central_lon =
     (let lon_rad = deg2rad * longitude;
          central_lon_rad = deg2rad * central_lon;
          lat_rad = deg2rad * latitude;
          lat_tan = tan lat_rad;
          lat_tan2 = lat_tan ^ 2;
          lat_tan4 = lat_tan ^ 4;
          lat_tan6 = lat_tan ^ 6;
          n = R / sqrt (1 - E * sin lat_rad ^ 2);
          c = E_P2 * cos lat_rad ^ 2;
          c2 = c ^ 2;
          c3 = c ^ 3;
          c4 = c ^ 4;
          a = cos lat_rad * (lon_rad - central_lon_rad);
          m = R * (M1 * lat_rad -
                   M2 * sin (2 * lat_rad) +
                   M3 * sin (4 * lat_rad) -
                   M4 * sin (6 * lat_rad) +
                   M5 * sin (8 * lat_rad) -
                   M6 * sin (10 * lat_rad));
          easting = K0 * n * (
                      a +
                      a ^ 3 / 6 * (1 - lat_tan2 + c) +
                      a ^ 5 / 120 * (5 - 18 * lat_tan2 + lat_tan4 + 14 * c + 13 * c2 + 4 * c3
                                     - 58 * c * lat_tan2 - 64 * c2 * lat_tan2
                                     - 24 * lat_tan2 * c3) +
                      a ^ 7 / 5040 * (61 - 479 * lat_tan2 + 179 * lat_tan4 - lat_tan6)
                      ) + 500000;
          northing = K0 * (m + n * lat_tan * (
                      a ^ 2 / 2 +
                      a ^ 4 / 24 * (5 - lat_tan2 + 9 * c + 4 * c2) +
                      a ^ 6 / 720 * (61 - 58 * lat_tan2 + lat_tan4 + 270 * c + 445 * c2
                                     + 324 * c3 + 88 * c4 - 330 * c * lat_tan2
                                     - 680 * lat_tan2 * c2 - 600 * lat_tan2 * c3
                                     - 192 * lat_tan2 * c4) +
                      a ^ 8 / 40320 * (1385 - 3111 * lat_tan2 + 543 * lat_tan4 - lat_tan6)
                      ))
      in (easting, if latitude < 0 then northing + 10000000 else northing))"

definition from_latlon ::
  "real \<Rightarrow> real \<Rightarrow> int option \<Rightarrow> bool \<Rightarrow> error + (real \<times> real \<times> int \<times> string option)" where
  "from_latlon latitude longitude force_zone_number strict =
     (if strict \<and> \<not> (-80 \<le> latitude \<and> latitude \<le> 84)
      then Inl (OutOfRangeError
                  ''latitude out of range (must be between 80 deg S and 84 deg N)'')
      else if strict \<and> \<not> (-180 \<le> longitude \<and> longitude \<le> 180)
      then Inl (OutOfRangeError
                  ''longitude out of range (must be between 180 deg W and 180 deg E)'')
      else
        (let zone_number = (case force_zone_number of
                              None \<Rightarrow> latlon_to_zone_number latitude longitude
                            | Some z \<Rightarrow> z)
         in case latitude_to_zone_letter latitude of
              Inl e \<Rightarrow> Inl e
            | Inr zone_letter \<Rightarrow>
                (case zone_number_to_central_longitude zone_number of
                   Inl e \<Rightarrow> Inl e
                 | Inr central_lon \<Rightarrow>
                     (case from_latlon_series latitude longitude (real_of_int central_lon) of
                        (easting, northing) \<Rightarrow>
                          Inr (easting, northing, zone_number, zone_letter)))))"

subsection \<open>Valid zone letters\<close>

text \<open>
  The letters of the bands C to X without I and O, in upper or lower case: the zone
  letters that \<^verbatim>\<open>to_latlon\<close> accepts (line 107, after \<^verbatim>\<open>upper()\<close>).
\<close>

definition valid_zone_letter :: "char \<Rightarrow> bool" where
  "valid_zone_letter l =
     (l \<in> set ''CDEFGHJKLMNPQRSTUVWX'' \<or> l \<in> set ''cdefghjklmnpqrstuvwx'')"

section \<open>Properties\<close>

subsection \<open>Rounding to double precision\<close>

lemma pow2_powr: "pow2 k = 2 powr (of_int k)"
  by (simp add: pow2_def powr_int)

lemma pow2_pos: "0 < pow2 k"
  by (simp add: pow2_powr)

lemma binade_eq:
  assumes "pow2 e \<le> \<bar>x\<bar>" and "\<bar>x\<bar> < pow2 (e + 1)" and "- 1022 \<le> e"
  shows "binade x = e"
proof -
  have pos: "0 < \<bar>x\<bar>" using assms(1) pow2_pos [of e] by linarith
  have "\<lfloor>log 2 \<bar>x\<bar>\<rfloor> = e"
    using assms(1,2) pos by (simp add: floor_log_eq_powr_iff pow2_powr)
  then show ?thesis using assms(3) by (simp add: binade_def)
qed

lemma binade_le:
  assumes "x \<noteq> 0" and "\<bar>x\<bar> < pow2 (e + 1)" and "- 1022 \<le> e"
  shows "binade x \<le> e"
proof -
  have "log 2 \<bar>x\<bar> < of_int (e + 1)"
    using assms(1,2) by (simp add: pow2_powr log_less_iff)
  then have "\<lfloor>log 2 \<bar>x\<bar>\<rfloor> < e + 1"
    using of_int_floor_le [of "log 2 \<bar>x\<bar>"] by linarith
  with assms(3) show ?thesis by (simp add: binade_def)
qed

lemma round_half_even_bounds:
  "\<lfloor>q\<rfloor> \<le> round_half_even q" "round_half_even q \<le> \<lceil>q\<rceil>"
proof -
  show "\<lfloor>q\<rfloor> \<le> round_half_even q"
    by (simp add: round_half_even_def Let_def)
  have "q \<noteq> of_int \<lfloor>q\<rfloor> \<Longrightarrow> \<lfloor>q\<rfloor> + 1 \<le> \<lceil>q\<rceil>"
    by (metis ceiling_altdef order_refl)
  moreover have "q = of_int \<lfloor>q\<rfloor> \<Longrightarrow> round_half_even q = \<lfloor>q\<rfloor>"
    by (simp add: round_half_even_def Let_def)
  moreover have "round_half_even q \<le> \<lfloor>q\<rfloor> + 1"
    by (simp add: round_half_even_def Let_def)
  ultimately show "round_half_even q \<le> \<lceil>q\<rceil>"
    using floor_le_ceiling [of q] by (cases "q = of_int \<lfloor>q\<rfloor>") linarith+
qed

lemma round_half_even_of_int: "round_half_even (of_int n) = n"
  by (simp add: round_half_even_def)

lemma round_double_nonneg: "0 \<le> x \<Longrightarrow> 0 \<le> round_double x"
proof (cases "x = 0")
  case True
  then show ?thesis by (simp add: round_double_def)
next
  case False
  assume "0 \<le> x"
  define u where "u = pow2 (binade x - 52)"
  have u: "0 < u" by (simp add: u_def pow2_pos)
  with \<open>0 \<le> x\<close> have "0 \<le> x / u" by simp
  then have "0 \<le> \<lfloor>x / u\<rfloor>" by simp
  with round_half_even_bounds(1) [of "x / u"] have "0 \<le> round_half_even (x / u)" by linarith
  with u False show ?thesis by (simp add: round_double_def u_def [symmetric] Let_def)
qed

text \<open>An upper bound that lies on the grid of every exponent up to \<open>e\<close> is kept.\<close>

lemma round_double_le_int:
  assumes "0 < x" and "x \<le> of_int n" and "x < pow2 (e + 1)" and "- 1022 \<le> e" and "e \<le> 52"
  shows "round_double x \<le> of_int n"
proof -
  define b where "b = binade x"
  have b: "b \<le> e" unfolding b_def using assms by (intro binade_le) simp_all
  define m where "m = nat (52 - b)"
  have u: "pow2 (b - 52) = 1 / 2 ^ m"
    using b assms(5) by (cases "b = 52") (simp_all add: pow2_def m_def)
  have "x / pow2 (b - 52) \<le> of_int (n * 2 ^ m)"
    using assms(2) by (simp add: u mult_right_mono)
  then have "\<lceil>x / pow2 (b - 52)\<rceil> \<le> n * 2 ^ m"
    by (simp add: ceiling_le_iff)
  with round_half_even_bounds(2) [of "x / pow2 (b - 52)"]
  have "round_half_even (x / pow2 (b - 52)) \<le> n * 2 ^ m" by linarith
  then have "of_int (round_half_even (x / pow2 (b - 52))) \<le> (of_int (n * 2 ^ m) :: real)"
    by (simp only: of_int_le_iff)
  then have "of_int (round_half_even (x / pow2 (b - 52))) * pow2 (b - 52) \<le> of_int n"
    by (simp add: u field_simps)
  with assms(1) show ?thesis
    by (simp add: round_double_def Let_def b_def)
qed

text \<open>Integers below \<open>2 ^ 53\<close> in magnitude are doubles.\<close>

lemma round_double_of_int:
  assumes "\<bar>n\<bar> < 2 ^ 53"
  shows "round_double (of_int n) = of_int n"
proof (cases "n = 0")
  case True
  then show ?thesis by (simp add: round_double_def)
next
  case False
  define x :: real where "x = of_int n"
  define b where "b = binade x"
  have x0: "x \<noteq> 0" using False by (simp add: x_def)
  have "\<bar>x\<bar> < pow2 (52 + 1)"
    using assms by (simp add: x_def pow2_def)
  then have b: "b \<le> 52" unfolding b_def using x0 by (intro binade_le) simp_all
  define m where "m = nat (52 - b)"
  have u: "pow2 (b - 52) = 1 / 2 ^ m"
    using b by (cases "b = 52") (simp_all add: pow2_def m_def)
  have "x / pow2 (b - 52) = of_int (n * 2 ^ m)"
    by (simp add: u x_def)
  then have "round_half_even (x / pow2 (b - 52)) = n * 2 ^ m"
    by (simp only: round_half_even_of_int)
  then have "of_int (round_half_even (x / pow2 (b - 52))) * pow2 (b - 52) = x"
    by (simp add: u x_def)
  with x0 show ?thesis
    by (simp add: round_double_def Let_def b_def x_def)
qed

lemma round_double_numeral:
  "numeral w < (2::int) ^ 53 \<Longrightarrow> round_double (numeral w) = numeral w"
  using round_double_of_int [of "numeral w"] by simp

text \<open>The rounding of a number whose binary exponent is known.\<close>

lemma round_double_eval:
  assumes "pow2 e \<le> \<bar>x\<bar>" and "\<bar>x\<bar> < pow2 (e + 1)" and "- 1022 \<le> e"
  shows "round_double x = of_int (round_half_even (x / pow2 (e - 52))) * pow2 (e - 52)"
proof -
  have "x \<noteq> 0" using assms(1) pow2_pos [of e] by auto
  then show ?thesis
    by (simp add: round_double_def Let_def binade_eq [OF assms])
qed

subsection \<open>Helper facts\<close>

lemma py_int_nonneg: "0 \<le> x \<Longrightarrow> py_int x = \<lfloor>x\<rfloor>"
  by (simp add: py_int_def)


lemma zone_letter_sum:
  assumes "-80 \<le> latitude" and "latitude \<le> 84"
  shows "0 \<le> round_double (latitude + 80)" and "round_double (latitude + 80) \<le> 164"
proof -
  from assms have nn: "0 \<le> latitude + 80" by simp
  then show "0 \<le> round_double (latitude + 80)" by (rule round_double_nonneg)
  show "round_double (latitude + 80) \<le> 164"
  proof (cases "latitude + 80 = 0")
    case True
    then show ?thesis by (simp add: round_double_def)
  next
    case False
    with nn have "0 < latitude + 80" by simp
    moreover have "latitude + 80 \<le> of_int 164" using assms by simp
    moreover have "latitude + 80 < pow2 (7 + 1)" using assms by (simp add: pow2_def)
    ultimately have "round_double (latitude + 80) \<le> of_int 164"
      by (rule round_double_le_int) simp_all
    then show ?thesis by simp
  qed
qed

lemma zone_letter_index:
  assumes "-80 \<le> latitude" and "latitude \<le> 84"
  shows "drop_bit 3 (py_int (round_double (latitude + 80)))
           = \<lfloor>round_double (latitude + 80) / 8\<rfloor>"
    and "0 \<le> \<lfloor>round_double (latitude + 80) / 8\<rfloor>"
    and "\<lfloor>round_double (latitude + 80) / 8\<rfloor> < 21"
proof -
  note s = zone_letter_sum [OF assms]
  have "\<lfloor>round_double (latitude + 80) / real_of_int 8\<rfloor>
          = \<lfloor>round_double (latitude + 80)\<rfloor> div 8"
    by (rule floor_divide_real_eq_div) simp
  then show "drop_bit 3 (py_int (round_double (latitude + 80)))
           = \<lfloor>round_double (latitude + 80) / 8\<rfloor>"
    using s(1) by (simp add: py_int_nonneg drop_bit_int_def)
  from s(1) show "0 \<le> \<lfloor>round_double (latitude + 80) / 8\<rfloor>" by simp
  from s(2) have "round_double (latitude + 80) / 8 < 21" by simp
  then show "\<lfloor>round_double (latitude + 80) / 8\<rfloor> < 21" by (simp add: floor_less_iff)
qed

lemma latitude_to_zone_letter_inside:
  assumes "-80 \<le> latitude" and "latitude \<le> 84"
  shows "latitude_to_zone_letter latitude =
           Inr (Some [ZONE_LETTERS ! nat \<lfloor>round_double (latitude + 80) / 8\<rfloor>])"
  using assms zone_letter_index [OF assms]
  by (simp add: latitude_to_zone_letter_def py_index_def ZONE_LETTERS_def)

lemma latitude_to_zone_letter_outside:
  "\<not> (-80 \<le> latitude \<and> latitude \<le> 84) \<Longrightarrow> latitude_to_zone_letter latitude = Inr None"
  by (auto simp add: latitude_to_zone_letter_def)

lemma latitude_to_zone_letter_0: "latitude_to_zone_letter 0 = Inr (Some ''N'')"
  by (simp add: latitude_to_zone_letter_inside round_double_numeral ZONE_LETTERS_def)

lemma zone_number_to_central_longitude_c_int:
  "- (2 ^ 31) \<le> z \<Longrightarrow> z < 2 ^ 31 \<Longrightarrow> \<not> isl (zone_number_to_central_longitude z)"
  by (simp add: zone_number_to_central_longitude_def c_int_def)

text \<open>The 32-bit arithmetic of the central meridian: exact for the zones, wrapped far out.\<close>

lemma zone_number_to_central_longitude_32: "zone_number_to_central_longitude 32 = Inr 9"
  by (simp add: zone_number_to_central_longitude_def c_int_def wrap_c_int_def)

lemma zone_number_to_central_longitude_wraps:
  "zone_number_to_central_longitude 2147483647 = Inr (- 189)"
  by (simp add: zone_number_to_central_longitude_def c_int_def wrap_c_int_def)

lemma hemisphere_no_range_message:
  "hemisphere unicode_upper zone_letter northern \<noteq>
     Inl (OutOfRangeError ''easting out of range (must be between 100.000 m and 999.999 m)'')"
  "hemisphere unicode_upper zone_letter northern \<noteq>
     Inl (OutOfRangeError ''northing out of range (must be between 0 m and 10.000.000 m)'')"
  by (simp_all add: hemisphere_def Let_def split: option.split)

lemma hemisphere_bad_letter:
  assumes "s \<noteq> []"
    and "\<not> (''C'' \<le> upper unicode_upper s \<and> upper unicode_upper s \<le> ''X'')
         \<or> upper unicode_upper s = ''I'' \<or> upper unicode_upper s = ''O''"
  shows "hemisphere unicode_upper (Some s) None =
           Inl (OutOfRangeError ''zone letter out of range (must be between C and X)'')"
  using assms by (auto simp add: hemisphere_def Let_def)

lemma to_latlon_bad_letter:
  assumes "s \<noteq> []"
    and "\<not> (''C'' \<le> upper unicode_upper s \<and> upper unicode_upper s \<le> ''X'')
         \<or> upper unicode_upper s = ''I'' \<or> upper unicode_upper s = ''O''"
    and "- (2 ^ 31) \<le> zone_number" and "zone_number < 2 ^ 31"
  shows "1 \<le> zone_number \<and> zone_number \<le> 60 \<longrightarrow>
         to_latlon unicode_upper easting northing zone_number (Some s) None False =
           Inl (OutOfRangeError ''zone letter out of range (must be between C and X)'')"
    and "\<exists>msg. to_latlon unicode_upper easting northing zone_number (Some s) None strict =
         Inl (OutOfRangeError msg)"
  using assms(1,3,4) hemisphere_bad_letter [OF assms(1,2)]
  by (simp_all add: to_latlon_def c_int_def)

lemma to_latlon_zone_number_raises:
  assumes "truthy zone_letter \<noteq> (northern \<noteq> None)"
    and "\<not> (1 \<le> zone_number \<and> zone_number \<le> 60)"
    and "- (2 ^ 31) \<le> zone_number" and "zone_number < 2 ^ 31"
  shows "to_latlon unicode_upper easting northing zone_number zone_letter northern False =
        Inl (OutOfRangeError ''zone number out of range (must be between 1 and 60)'')"
    and "\<exists>msg. to_latlon unicode_upper easting northing zone_number zone_letter northern strict =
         Inl (OutOfRangeError msg)"
  using assms by (auto simp add: to_latlon_def c_int_def)

lemma hemisphere_upper_case:
  "list_all (\<lambda>l. hemisphere unicode_upper (Some [l]) None
                   = Inr (upper unicode_upper [l] \<ge> ''N'')) ''CDEFGHJKLMNPQRSTUVWX''"
  by (simp add: hemisphere_def upper_def upper_char_def)

lemma hemisphere_lower_case:
  "list_all (\<lambda>l. hemisphere unicode_upper (Some [l]) None
                   = Inr (upper unicode_upper [l] \<ge> ''N'')) ''cdefghjklmnpqrstuvwx''"
  by (simp add: hemisphere_def upper_def upper_char_def)

lemma hemisphere_valid_zone_letter:
  assumes "valid_zone_letter l"
  shows "hemisphere unicode_upper (Some [l]) None = Inr (upper unicode_upper [l] \<ge> ''N'')"
  using assms hemisphere_upper_case [of unicode_upper] hemisphere_lower_case [of unicode_upper]
  unfolding valid_zone_letter_def list_all_iff by blast

lemma generic_zone_number_at_10: "py_int (round_double (round_double (10 + 180) / 6)) = 31"
proof -
  have "round_double (10 + 180) = 190"
    by (simp add: round_double_numeral)
  moreover have "\<lfloor>round_double (190 / 6)\<rfloor> = 31"
    by (subst round_double_eval [where e = 4])
       (simp_all add: pow2_def round_half_even_def Let_def)
  moreover have "0 \<le> round_double (190 / 6)"
    by (rule round_double_nonneg) simp
  ultimately show ?thesis by (simp add: py_int_nonneg)
qed

text \<open>
  The double next below 180 is \<open>180 - 1 / 2 ^ 45\<close>: its sum with 180 is a tie between two
  doubles and rounds to 360, so the zone rule gives 61 there as well.
\<close>

lemma zone_number_below_180: "latlon_to_zone_number 0 (180 - 1 / 2 ^ 45) = 61"
proof -
  have "round_double (180 - 1 / 2 ^ 45 + 180) = 360"
    by (subst round_double_eval [where e = 8])
       (simp_all add: pow2_def round_half_even_def Let_def)
  then show ?thesis
    by (simp add: latlon_to_zone_number_def py_int_def round_double_numeral)
qed

text \<open>
  The divisor of \<^verbatim>\<open>n = R / sqrt(1 - E * sin(lat_rad) ** 2)\<close>, the only division of
  \<^verbatim>\<open>from_latlon\<close> by a value that depends on the input, is positive: the quotient is a
  proper one for every latitude.
\<close>

lemma E_bounds: "0 < E" "E < 1"
  by (simp_all add: E_def F_def)

lemma prime_vertical_divisor_positive: "0 < sqrt (1 - E * sin x ^ 2)"
proof -
  have "sin x ^ 2 + cos x ^ 2 = 1" by simp
  moreover have "0 \<le> cos x ^ 2" by simp
  ultimately have "sin x ^ 2 \<le> 1" by linarith
  then have "E * sin x ^ 2 \<le> E * 1"
    using E_bounds(1) by (intro mult_left_mono) simp_all
  then have "E * sin x ^ 2 < 1"
    using E_bounds(2) by simp
  then show ?thesis by simp
qed

subsection \<open>Round trip\<close>

text \<open>
  Claim C1: for every latitude in [-80, 84] and longitude in [-180, 180], \<^verbatim>\<open>to_latlon\<close>
  applied to the tuple returned by \<^verbatim>\<open>from_latlon\<close> gives the coordinate back.

  The code does not do so at longitude 180: \<^verbatim>\<open>from_latlon(0.0, 180.0)\<close> passes the
  strict checks and returns zone number 61 with zone letter N, and \<^verbatim>\<open>to_latlon\<close>
  raises \<^verbatim>\<open>OutOfRangeError\<close> on that tuple, whatever easting and northing are.
\<close>

theorem round_trip_at_180:
  "\<exists>easting northing.
      from_latlon 0 180 None True = Inr (easting, northing, 61, Some ''N'') \<and>
      (\<exists>msg. to_latlon unicode_upper easting northing 61 (Some ''N'') None True
               = Inl (OutOfRangeError msg))"
proof -
  have "\<exists>easting northing.
          from_latlon 0 180 None True = Inr (easting, northing, 61, Some ''N'')"
    by (simp add: from_latlon_def latlon_to_zone_number_def py_int_def round_double_numeral
        latitude_to_zone_letter_0 zone_number_to_central_longitude_def c_int_def
        split: prod.split)
  then obtain easting northing
    where fwd: "from_latlon 0 180 None True = Inr (easting, northing, 61, Some ''N'')"
    by blast
  have "\<exists>msg. to_latlon unicode_upper easting northing 61 (Some ''N'') None True
               = Inl (OutOfRangeError msg)"
    by (simp add: to_latlon_def c_int_def)
  with fwd show ?thesis by blast
qed

subsection \<open>Zone numbers\<close>

text \<open>
  Claim C2: for every latitude in [-80, 84] and longitude in [-180, 180] the zone number
  chosen by \<^verbatim>\<open>latlon_to_zone_number\<close>, and returned by \<^verbatim>\<open>from_latlon\<close> without a
  forced zone, lies in [1, 60].

  At longitude 180 the generic formula gives \<open>int(360 / 6) + 1 = 61\<close>, a zone number
  that \<^verbatim>\<open>to_latlon\<close> rejects as out of range.
\<close>

theorem zone_number_at_180:
  "latlon_to_zone_number 0 180 = 61 \<and>
   (\<exists>easting northing zone_letter.
      from_latlon 0 180 None True = Inr (easting, northing, 61, zone_letter))"
  by (simp add: from_latlon_def latlon_to_zone_number_def py_int_def round_double_numeral
      latitude_to_zone_letter_0 zone_number_to_central_longitude_def c_int_def
      split: prod.split)

text \<open>
  Claim C3: \<^verbatim>\<open>latlon_to_zone_number(10.0, 10.0)\<close> falls under no special band and
  returns the generic formula result, said to be 41.

  As stated the claim fails: the generic formula gives \<open>int(190 / 6) + 1 = 32\<close>.
\<close>

theorem latlon_to_zone_number_10_10_not_41:
  "latlon_to_zone_number 10 10 \<noteq> 41"
  using generic_zone_number_at_10 by (simp add: latlon_to_zone_number_def)

text \<open>
  Claim C3, amended: \<^verbatim>\<open>latlon_to_zone_number(10.0, 10.0)\<close> falls under no special
  band and returns the generic formula result, which is 32.
\<close>

theorem latlon_to_zone_number_10_10:
  "latlon_to_zone_number 10 10 = py_int (round_double (round_double (10 + 180) / 6)) + 1 \<and>
   latlon_to_zone_number 10 10 = 32"
  using generic_zone_number_at_10 by (simp add: latlon_to_zone_number_def)

subsection \<open>Strict range checks of \<^verbatim>\<open>to_latlon\<close>\<close>

text \<open>
  Claim C4: with \<^verbatim>\<open>strict\<close> true, \<^verbatim>\<open>to_latlon\<close> raises \<^verbatim>\<open>OutOfRangeError\<close> exactly
  when easting is outside [100000, 999999] or northing is outside [0, 10000000].

  As stated the claim fails: the easting test is \<^verbatim>\<open>100000 <= easting < 1000000\<close> on a
  double, so the easting 999999.5 lies outside [100000, 999999] and is accepted.
\<close>

theorem to_latlon_easting_half_open:
  "\<not> (100000 \<le> (9999995 / 10 :: real) \<and> (9999995 / 10 :: real) \<le> 999999) \<and>
   (\<forall>unicode_upper.
      \<not> isl (to_latlon unicode_upper (9999995 / 10) 0 32 None (Some True) True))"
  by (simp add: to_latlon_def hemisphere_def zone_number_to_central_longitude_def c_int_def
      split: prod.split)

text \<open>
  Claim C4, amended: with \<^verbatim>\<open>strict\<close> true, a zone number that fits a C int and the
  argument combination accepted (exactly one of a non-empty zone letter and \<^verbatim>\<open>northern\<close>
  given), \<^verbatim>\<open>to_latlon\<close> raises the easting or the northing \<^verbatim>\<open>OutOfRangeError\<close> exactly
  when easting is outside the half-open interval [100000, 1000000) or northing is outside
  [0, 10000000]; so every easting in [100000, 999999] with a northing in [0, 10000000]
  passes these two checks.
\<close>

theorem to_latlon_strict_range:
  assumes "truthy zone_letter \<noteq> (northern \<noteq> None)"
    and "- (2 ^ 31) \<le> zone_number" and "zone_number < 2 ^ 31"
  shows "(to_latlon unicode_upper easting northing zone_number zone_letter northern True \<in>
      {Inl (OutOfRangeError ''easting out of range (must be between 100.000 m and 999.999 m)''),
       Inl (OutOfRangeError ''northing out of range (must be between 0 m and 10.000.000 m)'')})
   = (\<not> (100000 \<le> easting \<and> easting < 1000000) \<or> \<not> (0 \<le> northing \<and> northing \<le> 10000000))"
  using assms hemisphere_no_range_message [of unicode_upper zone_letter northern]
  by (auto simp add: to_latlon_def zone_number_to_central_longitude_def c_int_def
      split: prod.split sum.split)

theorem to_latlon_strict_range_witness:
  "\<forall>unicode_upper.
   to_latlon unicode_upper 99999 5000000 32 (Some ''U'') None True \<in>
     {Inl (OutOfRangeError ''easting out of range (must be between 100.000 m and 999.999 m)''),
      Inl (OutOfRangeError ''northing out of range (must be between 0 m and 10.000.000 m)'')} \<and>
   to_latlon unicode_upper 500000 10000001 32 None (Some True) True \<in>
     {Inl (OutOfRangeError ''easting out of range (must be between 100.000 m and 999.999 m)''),
      Inl (OutOfRangeError ''northing out of range (must be between 0 m and 10.000.000 m)'')} \<and>
   to_latlon unicode_upper 999999 0 61 None (Some True) True \<notin>
     {Inl (OutOfRangeError ''easting out of range (must be between 100.000 m and 999.999 m)''),
      Inl (OutOfRangeError ''northing out of range (must be between 0 m and 10.000.000 m)'')}"
proof
  fix unicode_upper
  show "to_latlon unicode_upper 99999 5000000 32 (Some ''U'') None True \<in>
     {Inl (OutOfRangeError ''easting out of range (must be between 100.000 m and 999.999 m)''),
      Inl (OutOfRangeError ''northing out of range (must be between 0 m and 10.000.000 m)'')} \<and>
   to_latlon unicode_upper 500000 10000001 32 None (Some True) True \<in>
     {Inl (OutOfRangeError ''easting out of range (must be between 100.000 m and 999.999 m)''),
      Inl (OutOfRangeError ''northing out of range (must be between 0 m and 10.000.000 m)'')} \<and>
   to_latlon unicode_upper 999999 0 61 None (Some True) True \<notin>
     {Inl (OutOfRangeError ''easting out of range (must be between 100.000 m and 999.999 m)''),
      Inl (OutOfRangeError ''northing out of range (must be between 0 m and 10.000.000 m)'')}"
    using to_latlon_strict_range
        [where unicode_upper = unicode_upper and zone_letter = "Some ''U''" and northern = None
           and zone_number = 32 and easting = 99999 and northing = 5000000]
      to_latlon_strict_range
        [where unicode_upper = unicode_upper and zone_letter = None and northern = "Some True"
           and zone_number = 32 and easting = 500000 and northing = 10000001]
      to_latlon_strict_range
        [where unicode_upper = unicode_upper and zone_letter = None and northern = "Some True"
           and zone_number = 61 and easting = 999999 and northing = 0]
    by simp
qed

subsection \<open>Domain checks of \<^verbatim>\<open>from_latlon\<close>\<close>

text \<open>
  Claim C5: \<^verbatim>\<open>from_latlon(85.0, 0.0, strict=True)\<close> raises \<^verbatim>\<open>OutOfRangeError\<close> for the
  latitude; with \<^verbatim>\<open>strict\<close> true every latitude outside [-80, 84] and every longitude
  outside [-180, 180] raises \<^verbatim>\<open>OutOfRangeError\<close>; \<^verbatim>\<open>from_latlon(85.0, 0.0, strict=False)\<close>
  raises nothing and returns a result.
\<close>

theorem from_latlon_domain:
  "from_latlon 85 0 force_zone_number True =
     Inl (OutOfRangeError ''latitude out of range (must be between 80 deg S and 84 deg N)'') \<and>
   (\<not> (-80 \<le> latitude \<and> latitude \<le> 84) \<or> \<not> (-180 \<le> longitude \<and> longitude \<le> 180) \<longrightarrow>
      (\<exists>msg. from_latlon latitude longitude force_zone_number True = Inl (OutOfRangeError msg))) \<and>
   (\<exists>easting northing zone_number zone_letter.
      from_latlon 85 0 None False = Inr (easting, northing, zone_number, zone_letter))"
proof (intro conjI impI)
  show "from_latlon 85 0 force_zone_number True =
     Inl (OutOfRangeError ''latitude out of range (must be between 80 deg S and 84 deg N)'')"
    by (simp add: from_latlon_def)
next
  assume "\<not> (-80 \<le> latitude \<and> latitude \<le> 84) \<or> \<not> (-180 \<le> longitude \<and> longitude \<le> 180)"
  then show "\<exists>msg. from_latlon latitude longitude force_zone_number True = Inl (OutOfRangeError msg)"
    by (auto simp add: from_latlon_def)
next
  show "\<exists>easting northing zone_number zone_letter.
      from_latlon 85 0 None False = Inr (easting, northing, zone_number, zone_letter)"
    by (simp add: from_latlon_def latlon_to_zone_number_def py_int_def round_double_numeral
        latitude_to_zone_letter_outside zone_number_to_central_longitude_def c_int_def
        split: prod.split)
qed

theorem from_latlon_domain_witness:
  "(\<exists>msg. from_latlon 0 181 None True = Inl (OutOfRangeError msg)) \<and>
   (\<exists>msg. from_latlon (-81) 0 (Some 5) True = Inl (OutOfRangeError msg))"
  using from_latlon_domain [of None 0 181] from_latlon_domain [of "Some 5" "-81" 0]
  by simp

subsection \<open>Argument combination of \<^verbatim>\<open>to_latlon\<close>\<close>

text \<open>
  Claim C6: \<^verbatim>\<open>to_latlon\<close> fails with a \<^verbatim>\<open>ValueError\<close>, an error that is not an
  \<^verbatim>\<open>OutOfRangeError\<close>, whenever both the zone letter and \<^verbatim>\<open>northern\<close> are supplied
  or neither is; when exactly one is supplied, no such error is raised.

  As stated the claim fails at the empty string, which lines 90 and 93 take as no zone
  letter: with \<^verbatim>\<open>zone_letter=''\<close> and \<^verbatim>\<open>northern=True\<close> both are supplied and nothing is
  raised, and with \<^verbatim>\<open>zone_letter=''\<close> alone exactly one is supplied and \<^verbatim>\<open>ValueError\<close>
  is raised.
\<close>

theorem to_latlon_empty_zone_letter:
  "(\<forall>unicode_upper.
      \<not> isl (to_latlon unicode_upper 500000 5000000 32 (Some []) (Some True) True)) \<and>
   (\<forall>unicode_upper.
      to_latlon unicode_upper 500000 5000000 32 (Some []) None True =
        Inl (ValueError ''either zone_letter or northern needs to be set''))"
  by (simp add: to_latlon_def hemisphere_def zone_number_to_central_longitude_def c_int_def
      split: prod.split)

text \<open>
  Claim C6, amended: for a zone number that fits a C int, \<^verbatim>\<open>to_latlon\<close> fails with a
  \<^verbatim>\<open>ValueError\<close>, and then with no \<^verbatim>\<open>OutOfRangeError\<close>, exactly when a non-empty zone
  letter and \<^verbatim>\<open>northern\<close> are both given, or when neither is (the zone letter
  \<^verbatim>\<open>None\<close> or empty, and \<^verbatim>\<open>northern\<close> \<^verbatim>\<open>None\<close>); when exactly one of a non-empty zone
  letter and \<^verbatim>\<open>northern\<close> is given, no \<^verbatim>\<open>ValueError\<close> is raised.
\<close>

theorem to_latlon_argument_combination:
  assumes "- (2 ^ 31) \<le> zone_number" and "zone_number < 2 ^ 31"
  shows
  "((\<exists>msg. to_latlon unicode_upper easting northing zone_number zone_letter northern strict
             = Inl (ValueError msg))
      = (truthy zone_letter = (northern \<noteq> None))) \<and>
   (truthy zone_letter = (northern \<noteq> None) \<longrightarrow>
      (\<forall>msg. to_latlon unicode_upper easting northing zone_number zone_letter northern strict
             \<noteq> Inl (OutOfRangeError msg)))"
  using assms
  by (auto simp add: to_latlon_def hemisphere_def zone_number_to_central_longitude_def c_int_def
      Let_def split: prod.split sum.split option.split)

theorem to_latlon_argument_combination_witness:
  "\<forall>unicode_upper.
   (\<exists>msg. to_latlon unicode_upper 500000 5000000 32 None None True = Inl (ValueError msg)) \<and>
   (\<exists>msg. to_latlon unicode_upper 500000 5000000 32 (Some ''U'') (Some True) True
             = Inl (ValueError msg)) \<and>
   (\<forall>msg. to_latlon unicode_upper 500000 5000000 32 (Some ''U'') None True
             \<noteq> Inl (ValueError msg)) \<and>
   (\<forall>msg. to_latlon unicode_upper 500000 5000000 32 None (Some True) True
             \<noteq> Inl (ValueError msg))"
proof
  fix unicode_upper
  show "(\<exists>msg. to_latlon unicode_upper 500000 5000000 32 None None True = Inl (ValueError msg)) \<and>
   (\<exists>msg. to_latlon unicode_upper 500000 5000000 32 (Some ''U'') (Some True) True
             = Inl (ValueError msg)) \<and>
   (\<forall>msg. to_latlon unicode_upper 500000 5000000 32 (Some ''U'') None True
             \<noteq> Inl (ValueError msg)) \<and>
   (\<forall>msg. to_latlon unicode_upper 500000 5000000 32 None (Some True) True
             \<noteq> Inl (ValueError msg))"
    using to_latlon_argument_combination
        [where unicode_upper = unicode_upper and zone_number = 32 and easting = 500000
           and northing = 5000000 and zone_letter = None and northern = None and strict = True]
      to_latlon_argument_combination
        [where unicode_upper = unicode_upper and zone_number = 32 and easting = 500000
           and northing = 5000000 and zone_letter = "Some ''U''" and northern = "Some True"
           and strict = True]
      to_latlon_argument_combination
        [where unicode_upper = unicode_upper and zone_number = 32 and easting = 500000
           and northing = 5000000 and zone_letter = "Some ''U''" and northern = None
           and strict = True]
      to_latlon_argument_combination
        [where unicode_upper = unicode_upper and zone_number = 32 and easting = 500000
           and northing = 5000000 and zone_letter = None and northern = "Some True"
           and strict = True]
    by simp
qed

subsection \<open>Zone letters\<close>




subsection \<open>Checks of \<^verbatim>\<open>to_latlon\<close> that do not depend on \<^verbatim>\<open>strict\<close>\<close>

text \<open>
  Claim C7: for every zone number outside [1, 60], and for every supplied zone letter
  whose upper-case form is outside [C, X] or is I or O, \<^verbatim>\<open>to_latlon\<close> raises
  \<^verbatim>\<open>OutOfRangeError\<close>, even when \<^verbatim>\<open>strict\<close> is false.

  As stated the claim fails: the argument combination is tested first (lines 90 to 94),
  so with neither a zone letter nor \<^verbatim>\<open>northern\<close> the zone number 0 raises
  \<^verbatim>\<open>ValueError\<close>, not \<^verbatim>\<open>OutOfRangeError\<close>.
\<close>

theorem to_latlon_zone_number_precedence:
  "\<forall>unicode_upper.
     to_latlon unicode_upper 500000 0 0 None None False =
       Inl (ValueError ''either zone_letter or northern needs to be set'') \<and>
     (\<forall>msg. to_latlon unicode_upper 500000 0 0 None None False \<noteq> Inl (OutOfRangeError msg))"
  by (simp add: to_latlon_def c_int_def)

text \<open>
  Claim C7, amended: for a zone number that fits a C int (a Python integer that does not
  fit raises \<^verbatim>\<open>OverflowError\<close> at the call): when exactly one of a non-empty zone letter
  and \<^verbatim>\<open>northern\<close> is given, every zone number outside [1, 60] makes \<^verbatim>\<open>to_latlon\<close>
  raise \<^verbatim>\<open>OutOfRangeError\<close> whatever \<^verbatim>\<open>strict\<close> is (with \<^verbatim>\<open>strict\<close> false, the zone
  number error); and every non-empty zone letter given alone whose upper-case form,
  as \<^verbatim>\<open>str.upper()\<close> gives it, is outside [C, X] or is I or O makes it raise
  \<^verbatim>\<open>OutOfRangeError\<close> whatever \<^verbatim>\<open>strict\<close> is (with \<^verbatim>\<open>strict\<close> false and a zone number in
  [1, 60], the zone letter error).
\<close>

theorem to_latlon_zone_checks:
  assumes "- (2 ^ 31) \<le> zone_number" and "zone_number < 2 ^ 31"
  shows
  "(truthy zone_letter \<noteq> (northern \<noteq> None) \<and> \<not> (1 \<le> zone_number \<and> zone_number \<le> 60) \<longrightarrow>
      to_latlon unicode_upper easting northing zone_number zone_letter northern False =
        Inl (OutOfRangeError ''zone number out of range (must be between 1 and 60)'') \<and>
      (\<exists>msg. to_latlon unicode_upper easting northing zone_number zone_letter northern strict =
         Inl (OutOfRangeError msg))) \<and>
   (s \<noteq> [] \<and> (\<not> (''C'' \<le> upper unicode_upper s \<and> upper unicode_upper s \<le> ''X'')
               \<or> upper unicode_upper s = ''I'' \<or> upper unicode_upper s = ''O'') \<longrightarrow>
      (1 \<le> zone_number \<and> zone_number \<le> 60 \<longrightarrow>
         to_latlon unicode_upper easting northing zone_number (Some s) None False =
           Inl (OutOfRangeError ''zone letter out of range (must be between C and X)'')) \<and>
      (\<exists>msg. to_latlon unicode_upper easting northing zone_number (Some s) None strict =
         Inl (OutOfRangeError msg)))"
proof (intro conjI impI)
  assume a: "truthy zone_letter \<noteq> (northern \<noteq> None) \<and> \<not> (1 \<le> zone_number \<and> zone_number \<le> 60)"
  then show "to_latlon unicode_upper easting northing zone_number zone_letter northern False =
        Inl (OutOfRangeError ''zone number out of range (must be between 1 and 60)'')"
    using assms by (intro to_latlon_zone_number_raises(1)) simp_all
  from a show "\<exists>msg. to_latlon unicode_upper easting northing zone_number zone_letter northern strict =
         Inl (OutOfRangeError msg)"
    using assms by (intro to_latlon_zone_number_raises(2)) simp_all
next
  assume b: "s \<noteq> [] \<and> (\<not> (''C'' \<le> upper unicode_upper s \<and> upper unicode_upper s \<le> ''X'')
               \<or> upper unicode_upper s = ''I'' \<or> upper unicode_upper s = ''O'')"
  then have b1: "s \<noteq> []"
    and b2: "\<not> (''C'' \<le> upper unicode_upper s \<and> upper unicode_upper s \<le> ''X'')
               \<or> upper unicode_upper s = ''I'' \<or> upper unicode_upper s = ''O''"
    by blast+
  show "\<exists>msg. to_latlon unicode_upper easting northing zone_number (Some s) None strict =
         Inl (OutOfRangeError msg)"
    by (rule to_latlon_bad_letter(2) [OF b1 b2 assms])
  assume "1 \<le> zone_number \<and> zone_number \<le> 60"
  with to_latlon_bad_letter(1) [OF b1 b2 assms]
  show "to_latlon unicode_upper easting northing zone_number (Some s) None False =
           Inl (OutOfRangeError ''zone letter out of range (must be between C and X)'')"
    by blast
qed

theorem to_latlon_zone_checks_witness:
  "\<forall>unicode_upper.
   to_latlon unicode_upper 500000 0 61 None (Some True) False =
     Inl (OutOfRangeError ''zone number out of range (must be between 1 and 60)'') \<and>
   to_latlon unicode_upper 500000 0 32 (Some ''i'') None False =
     Inl (OutOfRangeError ''zone letter out of range (must be between C and X)'') \<and>
   to_latlon unicode_upper 500000 0 32 (Some ''b'') None False =
     Inl (OutOfRangeError ''zone letter out of range (must be between C and X)'')"
proof
  fix unicode_upper
  show "to_latlon unicode_upper 500000 0 61 None (Some True) False =
     Inl (OutOfRangeError ''zone number out of range (must be between 1 and 60)'') \<and>
   to_latlon unicode_upper 500000 0 32 (Some ''i'') None False =
     Inl (OutOfRangeError ''zone letter out of range (must be between C and X)'') \<and>
   to_latlon unicode_upper 500000 0 32 (Some ''b'') None False =
     Inl (OutOfRangeError ''zone letter out of range (must be between C and X)'')"
    using to_latlon_zone_checks
        [where unicode_upper = unicode_upper and zone_letter = None and northern = "Some True"
           and zone_number = 61 and easting = 500000 and northing = 0 and strict = False
           and s = "''i''"]
      to_latlon_zone_checks
        [where unicode_upper = unicode_upper and zone_letter = None and northern = "Some True"
           and zone_number = 32 and easting = 500000 and northing = 0 and strict = False
           and s = "''i''"]
      to_latlon_zone_checks
        [where unicode_upper = unicode_upper and zone_letter = None and northern = "Some True"
           and zone_number = 32 and easting = 500000 and northing = 0 and strict = False
           and s = "''b''"]
    by (simp add: upper_def upper_char_def)
qed

subsection \<open>Zone letter and hemisphere\<close>

text \<open>
  Claim C9: for every valid zone letter L (upper or lower case of a letter in [C, X]
  without I and O) and all easting, northing, zone number and \<^verbatim>\<open>strict\<close>,
  \<^verbatim>\<open>to_latlon\<close> called with the zone letter L gives exactly the result of
  \<^verbatim>\<open>to_latlon\<close> called with \<^verbatim>\<open>northern = (upper(L) >= 'N')\<close> instead, errors included.
\<close>

theorem to_latlon_letter_is_hemisphere:
  "valid_zone_letter l \<Longrightarrow>
   to_latlon unicode_upper easting northing zone_number (Some [l]) None strict =
   to_latlon unicode_upper easting northing zone_number None
     (Some (upper unicode_upper [l] \<ge> ''N'')) strict"
proof -
  assume "valid_zone_letter l"
  then have letter: "hemisphere unicode_upper (Some [l]) None
                       = Inr (upper unicode_upper [l] \<ge> ''N'')"
    by (rule hemisphere_valid_zone_letter)
  have flag: "hemisphere unicode_upper None (Some (upper unicode_upper [l] \<ge> ''N''))
                = Inr (upper unicode_upper [l] \<ge> ''N'')"
    by (simp add: hemisphere_def)
  show ?thesis
    unfolding to_latlon_def letter flag by (simp split: sum.split)
qed

theorem to_latlon_letter_is_hemisphere_witness:
  "\<forall>unicode_upper.
   valid_zone_letter CHR ''u'' \<and>
   to_latlon unicode_upper 500000 5000000 32 (Some ''u'') None True =
   to_latlon unicode_upper 500000 5000000 32 None (Some True) True \<and>
   valid_zone_letter CHR ''M'' \<and>
   to_latlon unicode_upper 500000 5000000 32 (Some ''M'') None True =
   to_latlon unicode_upper 500000 5000000 32 None (Some False) True"
proof
  fix unicode_upper
  have u: "valid_zone_letter CHR ''u''" and m: "valid_zone_letter CHR ''M''"
    by (simp_all add: valid_zone_letter_def)
  show "valid_zone_letter CHR ''u'' \<and>
   to_latlon unicode_upper 500000 5000000 32 (Some ''u'') None True =
   to_latlon unicode_upper 500000 5000000 32 None (Some True) True \<and>
   valid_zone_letter CHR ''M'' \<and>
   to_latlon unicode_upper 500000 5000000 32 (Some ''M'') None True =
   to_latlon unicode_upper 500000 5000000 32 None (Some False) True"
    using u m
      to_latlon_letter_is_hemisphere
        [OF u, where unicode_upper = unicode_upper and easting = 500000
           and northing = 5000000 and zone_number = 32 and strict = True]
      to_latlon_letter_is_hemisphere
        [OF m, where unicode_upper = unicode_upper and easting = 500000
           and northing = 5000000 and zone_number = 32 and strict = True]
    by (simp add: upper_def upper_char_def)
qed

subsection \<open>Forced zone number\<close>

text \<open>
  Claim C10: \<^verbatim>\<open>from_latlon\<close> does not validate \<^verbatim>\<open>force_zone_number\<close>: for every
  integer Z, \<^verbatim>\<open>from_latlon(latitude, longitude, force_zone_number=Z, strict=True)\<close>
  with latitude and longitude in the strict domain raises no error and returns Z as
  zone number.

  As stated the claim fails: the forced zone number is passed to
  \<^verbatim>\<open>zone_number_to_central_longitude(int zone_number)\<close>, whose parameter is a C int, and
  a Python integer that does not fit, such as \<open>2 ^ 31\<close>, raises \<^verbatim>\<open>OverflowError\<close>
  there.
\<close>

theorem from_latlon_force_zone_overflow:
  "from_latlon 0 0 (Some 2147483648) True = Inl OverflowError"
  by (simp add: from_latlon_def latitude_to_zone_letter_0
      zone_number_to_central_longitude_def c_int_def)

text \<open>
  Claim C10, amended: for every integer Z that fits a C int, that is
  \<open>- 2 ^ 31 \<le> Z < 2 ^ 31\<close>, including values outside [1, 60] such as 0 or 99, and every
  latitude and longitude in the strict domain, \<^verbatim>\<open>from_latlon\<close> with
  \<^verbatim>\<open>force_zone_number=Z\<close> and \<^verbatim>\<open>strict=True\<close> raises no error and returns a tuple
  whose zone number is Z. (The central meridian that the easting and northing are
  computed from is the wrapped 32-bit value of \<^verbatim>\<open>(Z - 1) * 6 - 180 + 3\<close>.)
\<close>

theorem from_latlon_force_zone_number:
  assumes "-80 \<le> latitude" and "latitude \<le> 84"
    and "-180 \<le> longitude" and "longitude \<le> 180"
    and "- (2 ^ 31) \<le> z" and "z < 2 ^ 31"
  shows "\<exists>easting northing zone_letter.
           from_latlon latitude longitude (Some z) True =
             Inr (easting, northing, z, zone_letter)"
  using assms
  by (simp add: from_latlon_def latitude_to_zone_letter_inside
      zone_number_to_central_longitude_def c_int_def split: prod.split)

theorem from_latlon_force_zone_number_witness:
  "(\<exists>easting northing zone_letter.
      from_latlon 0 0 (Some 0) True = Inr (easting, northing, 0, zone_letter)) \<and>
   (\<exists>easting northing zone_letter.
      from_latlon 0 0 (Some 99) True = Inr (easting, northing, 99, zone_letter)) \<and>
   (\<exists>easting northing zone_letter.
      from_latlon 0 0 (Some 2147483647) True = Inr (easting, northing, 2147483647, zone_letter))"
  using from_latlon_force_zone_number [of 0 0 0] from_latlon_force_zone_number [of 0 0 99]
    from_latlon_force_zone_number [of 0 0 2147483647]
  by simp

end
